theory Spec2Isabelle
  imports Main "HOL-Library.Multiset" "HOL-Library.Product_Lexorder"
begin

section \<open>Widget ranking (views/dashboards.py, \<open>rearrange\<close>)\<close>

text \<open>
  A widget descriptor is a Python dict. The keys \<open>priority\<close> and \<open>display_size\<close> are read
  with \<open>dict.get\<close> and a default, so they may be absent: they are optional fields. In this
  section their values have the types of the data model: \<open>priority\<close> is an integer (Python's
  unbounded \<open>int\<close>), \<open>display_size\<close> a string. With these types every comparison of two
  sort keys is defined. The next section drops the types and has the function on arbitrary
  dicts, where it can raise; on typed descriptors the two agree (\<open>rearrange_dyn_typed\<close>).
\<close>

record widget =
  content :: string
  display_size :: "string option"
  priority :: "int option"
  lazy :: "string option"
  container_class :: "string option"

text \<open>\<open>d.get(k, default)\<close> on the result of a key lookup.\<close>

definition dict_get :: "'v option \<Rightarrow> 'v \<Rightarrow> 'v" where
  "dict_get looked_up dflt = (case looked_up of None \<Rightarrow> dflt | Some v \<Rightarrow> v)"

text \<open>The local dict \<open>mapping\<close> of \<open>rearrange\<close>.\<close>

definition mapping :: "string \<rightharpoonup> int" where
  "mapping = [''small'' \<mapsto> 1, ''big'' \<mapsto> 2, ''full'' \<mapsto> 3]"

text \<open>
  The inner function \<open>sort_key\<close>:
  \<open>(element.get('priority', 1), mapping.get(element.get('display_size', 'small'), 1))\<close>.
\<close>

definition sort_key_w :: "widget \<Rightarrow> int \<times> int" where
  "sort_key_w element =
     (dict_get (priority element) 1,
      dict_get (mapping (dict_get (display_size element) ''small'')) 1)"

text \<open>
  Python's \<open>sorted(xs, key=f, reverse=r)\<close>. The sort is stable; with \<open>reverse=True\<close> CPython
  reverses the list, runs the stable ascending sort and reverses the result, so that elements
  with equal keys keep their original order. Tuples compare lexicographically, which is the
  order of pairs here.
\<close>

definition sorted_py :: "('a \<Rightarrow> 'k::linorder) \<Rightarrow> bool \<Rightarrow> 'a list \<Rightarrow> 'a list" where
  "sorted_py key reverse xs =
     (if reverse then rev (sort_key key (rev xs)) else sort_key key xs)"

definition rearrange :: "widget list \<Rightarrow> widget list" where
  "rearrange widgets = sorted_py sort_key_w True widgets"

text \<open>
  The ranking key in the words of the specification: the priority with default 1, and the
  size tier small 1, big 2, full 3, with a missing size read as small and any other value
  as tier 1.
\<close>

definition spec_priority :: "widget \<Rightarrow> int" where
  "spec_priority w = (case priority w of None \<Rightarrow> 1 | Some p \<Rightarrow> p)"

definition spec_size_tier :: "widget \<Rightarrow> int" where
  "spec_size_tier w =
     (case display_size w of
        None \<Rightarrow> 1
      | Some d \<Rightarrow> if d = ''small'' then 1 else if d = ''big'' then 2
                  else if d = ''full'' then 3 else 1)"

section \<open>Widget ranking on dicts as Python has them\<close>

text \<open>
  Nothing in \<open>rearrange\<close> checks what a descriptor holds. The values modelled here are
  \<open>None\<close>, integers, strings and lists of integers (a value that cannot be hashed); a
  descriptor is a dict from keys to such values. On these \<open>rearrange\<close> can raise
  \<open>TypeError\<close>, so its result is a sum. The record \<open>widget\<close> above is the descriptor
  whose values have the types of the data model; \<open>to_dict\<close> writes it as a dict.
\<close>

datatype pyval = PNone | PInt int | PStr string | PList "int list"

datatype py_error = TypeError

type_synonym pydict = "string \<rightharpoonup> pyval"

definition raises :: "py_error + 'a \<Rightarrow> bool" where
  "raises r = (case r of Inl err \<Rightarrow> True | Inr v \<Rightarrow> False)"

text \<open>\<open>mapping.get(k, dflt)\<close> hashes \<open>k\<close>: a list raises. The keys of \<open>mapping\<close> are strings.\<close>

fun hashable :: "pyval \<Rightarrow> bool" where
  "hashable (PList xs) = False"
| "hashable v = True"

definition mapping_get :: "pyval \<Rightarrow> int \<Rightarrow> py_error + int" where
  "mapping_get k dflt =
     (if \<not> hashable k then Inl TypeError
      else case k of PStr s \<Rightarrow> Inr (dict_get (mapping s) dflt) | other \<Rightarrow> Inr dflt)"

text \<open>The inner function \<open>sort_key\<close>: the first component is whatever the dict holds.\<close>

definition sort_key_dyn :: "pydict \<Rightarrow> py_error + pyval \<times> int" where
  "sort_key_dyn element =
     (let p = dict_get (element ''priority'') (PInt 1)
      in case mapping_get (dict_get (element ''display_size'') (PStr ''small'')) 1 of
           Inl err \<Rightarrow> Inl err
         | Inr tier \<Rightarrow> Inr (p, tier))"

text \<open>
  \<open><\<close> on values: defined between two integers, two strings (by code point, a proper
  prefix first) and two lists; between values of different kinds, and between \<open>None\<close> and
  \<open>None\<close>, it raises \<open>TypeError\<close>. \<open><\<close> on two tuples looks for the first position where
  they differ by \<open>==\<close> and compares there.
\<close>

fun lex_lt :: "('a \<Rightarrow> 'a \<Rightarrow> bool) \<Rightarrow> 'a list \<Rightarrow> 'a list \<Rightarrow> bool" where
  "lex_lt lessp [] [] = False"
| "lex_lt lessp [] (y # ys) = True"
| "lex_lt lessp (x # xs) [] = False"
| "lex_lt lessp (x # xs) (y # ys) = (if x = y then lex_lt lessp xs ys else lessp x y)"

fun py_lt :: "pyval \<Rightarrow> pyval \<Rightarrow> py_error + bool" where
  "py_lt (PInt a) (PInt b) = Inr (a < b)"
| "py_lt (PStr a) (PStr b) = Inr (lex_lt (\<lambda>c d. (of_char c :: nat) < of_char d) a b)"
| "py_lt (PList a) (PList b) = Inr (lex_lt (<) a b)"
| "py_lt a b = Inl TypeError"

definition tuple_lt :: "pyval \<times> int \<Rightarrow> pyval \<times> int \<Rightarrow> py_error + bool" where
  "tuple_lt k k' = (if fst k = fst k' then Inr (snd k < snd k') else py_lt (fst k) (fst k'))"

text \<open>
  \<open>sorted(xs, key=key, reverse=reverse)\<close>. The keys are computed first, in order, and the
  first error of \<open>key\<close> is raised. Then the pairs of key and element are sorted by key with
  \<open><\<close>, stably, between two reversals when \<open>reverse\<close> is set. The sort needs the order of
  every two keys, so it raises when \<open><\<close> raises for two keys of the list: with the values
  above, keys that \<open><\<close> cannot compare are of different kinds, and a comparison sort cannot
  finish without comparing across two kinds.
\<close>

fun keys_of :: "('a \<Rightarrow> py_error + 'k) \<Rightarrow> 'a list \<Rightarrow> py_error + 'k list" where
  "keys_of key [] = Inr []"
| "keys_of key (x # xs) =
     (case key x of
        Inl err \<Rightarrow> Inl err
      | Inr k \<Rightarrow> (case keys_of key xs of Inl err \<Rightarrow> Inl err | Inr ks \<Rightarrow> Inr (k # ks)))"

fun insort_by :: "('a \<Rightarrow> 'a \<Rightarrow> bool) \<Rightarrow> 'a \<Rightarrow> 'a list \<Rightarrow> 'a list" where
  "insort_by lessp x [] = [x]"
| "insort_by lessp x (y # ys) = (if lessp y x then y # insort_by lessp x ys else x # y # ys)"

definition sort_by :: "('a \<Rightarrow> 'a \<Rightarrow> bool) \<Rightarrow> 'a list \<Rightarrow> 'a list" where
  "sort_by lessp xs = foldr (insort_by lessp) xs []"

definition sorted_dyn ::
  "('a \<Rightarrow> py_error + 'k) \<Rightarrow> ('k \<Rightarrow> 'k \<Rightarrow> py_error + bool) \<Rightarrow> bool \<Rightarrow> 'a list
     \<Rightarrow> py_error + 'a list" where
  "sorted_dyn key lessp reverse xs =
     (case keys_of key xs of
        Inl err \<Rightarrow> Inl err
      | Inr ks \<Rightarrow>
          if list_ex (\<lambda>k. list_ex (\<lambda>k'. raises (lessp k k')) ks) ks then Inl TypeError
          else
            (let decorated = zip ks xs;
                 earlier = (\<lambda>a b. lessp (fst a) (fst b) = Inr True)
             in Inr (map snd (if reverse then rev (sort_by earlier (rev decorated))
                              else sort_by earlier decorated))))"

definition rearrange_dyn :: "pydict list \<Rightarrow> py_error + pydict list" where
  "rearrange_dyn widgets = sorted_dyn sort_key_dyn tuple_lt True widgets"

definition to_dict :: "widget \<Rightarrow> pydict" where
  "to_dict w =
     (\<lambda>k. if k = ''content'' then Some (PStr (content w))
          else if k = ''display_size'' then map_option PStr (display_size w)
          else if k = ''priority'' then map_option PInt (priority w)
          else if k = ''lazy'' then map_option PStr (lazy w)
          else if k = ''container_class'' then map_option PStr (container_class w)
          else None)"

text \<open>
  The conditions under which the ranking is defined, and the key of the specification on
  dicts: the priority is missing or an integer; the size is missing or can be hashed. Any
  size other than \<open>big\<close> and \<open>full\<close> has tier 1.
\<close>

definition int_priority :: "pydict \<Rightarrow> bool" where
  "int_priority d =
     (case d ''priority'' of None \<Rightarrow> True | Some (PInt p) \<Rightarrow> True | Some other \<Rightarrow> False)"

definition hashable_size :: "pydict \<Rightarrow> bool" where
  "hashable_size d = (case d ''display_size'' of None \<Rightarrow> True | Some v \<Rightarrow> hashable v)"

definition spec_priority_d :: "pydict \<Rightarrow> int" where
  "spec_priority_d d = (case d ''priority'' of Some (PInt p) \<Rightarrow> p | other \<Rightarrow> 1)"

definition spec_size_tier_d :: "pydict \<Rightarrow> int" where
  "spec_size_tier_d d =
     (case d ''display_size'' of
        Some (PStr s) \<Rightarrow> if s = ''big'' then 2 else if s = ''full'' then 3 else 1
      | other \<Rightarrow> 1)"

section \<open>Event listings (views/dashboards.py)\<close>

subsection \<open>Rows of the database\<close>

text \<open>
  The model classes live outside these files; the records list the attributes the code reads.
  An instant is a point on the time line (seconds since the epoch). A date column is read
  with SQL semantics, so it may be NULL (\<open>None\<close>).
\<close>

type_synonym timestamp = int

record subevent =
  se_pk :: int
  se_date_from :: "timestamp option"
  se_date_to :: "timestamp option"

datatype order_status = STATUS_PENDING | STATUS_PAID | STATUS_EXPIRED | STATUS_CANCELED

record order =
  status :: order_status
  order_testmode :: bool

record required_action =
  ra_done :: bool

record event =
  pk :: int
  slug :: string
  has_subevents :: bool
  date_from :: "timestamp option"
  date_to :: "timestamp option"
  subevents :: "subevent list"
  live :: bool
  testmode :: bool
  orders :: "order list"
  requiredactions :: "required_action list"
  create_for :: string
  talk_schedule_public :: "bool option"

text \<open>
  A row of the annotated query: the event and the attributes added by \<open>annotate\<close>.
  \<open>order_count\<close> and \<open>has_ra\<close> are only annotated when the query is not lazy.
\<close>

record annotated_event =
  ev :: event
  order_count :: "nat option"
  has_ra :: "bool option"
  min_from :: "timestamp option"
  max_from :: "timestamp option"
  max_to :: "timestamp option"
  max_fromto :: "timestamp option"
  order_to :: "timestamp option"

subsection \<open>SQL functions\<close>

datatype db_vendor = PostgreSQL | MySQL | SQLite

fun non_null :: "'a option list \<Rightarrow> 'a list" where
  "non_null [] = []"
| "non_null (None # xs) = non_null xs"
| "non_null (Some v # xs) = v # non_null xs"

text \<open>The aggregates \<open>Max\<close> and \<open>Min\<close> skip NULL and are NULL over no value at all.\<close>

definition Max_agg :: "timestamp option list \<Rightarrow> timestamp option" where
  "Max_agg col = (case non_null col of [] \<Rightarrow> None | v # vs \<Rightarrow> Some (fold max vs v))"

definition Min_agg :: "timestamp option list \<Rightarrow> timestamp option" where
  "Min_agg col = (case non_null col of [] \<Rightarrow> None | v # vs \<Rightarrow> Some (fold min vs v))"

text \<open>
  \<open>Greatest\<close> of two expressions: PostgreSQL returns the largest non-NULL argument (NULL when
  both are NULL); MySQL and SQLite return NULL as soon as one argument is NULL.
\<close>

fun Greatest2 :: "db_vendor \<Rightarrow> timestamp option \<Rightarrow> timestamp option \<Rightarrow> timestamp option" where
  "Greatest2 vendor (Some a) (Some b) = Some (max a b)"
| "Greatest2 PostgreSQL (Some a) None = Some a"
| "Greatest2 PostgreSQL None (Some b) = Some b"
| "Greatest2 vendor a b = None"

text \<open>\<open>Coalesce\<close>: the arguments are tried from left to right.\<close>

fun Coalesce :: "'a option list \<Rightarrow> 'a option" where
  "Coalesce [] = None"
| "Coalesce (Some v # xs) = Some v"
| "Coalesce (None # xs) = Coalesce xs"

text \<open>A comparison with NULL is not true, so the row is not selected.\<close>

definition gte :: "timestamp option \<Rightarrow> timestamp \<Rightarrow> bool" where
  "gte col t = (case col of None \<Rightarrow> False | Some v \<Rightarrow> t \<le> v)"

definition lt :: "timestamp option \<Rightarrow> timestamp \<Rightarrow> bool" where
  "lt col t = (case col of None \<Rightarrow> False | Some v \<Rightarrow> v < t)"

text \<open>
  The place of NULL in \<open>ORDER BY\<close>: PostgreSQL treats NULL as larger than every value, MySQL
  and SQLite as smaller. A column value becomes a pair that sorts accordingly; a descending
  column negates the pair.
\<close>

fun order_col :: "db_vendor \<Rightarrow> timestamp option \<Rightarrow> int \<times> int" where
  "order_col PostgreSQL None = (1, 0)"
| "order_col PostgreSQL (Some v) = (0, v)"
| "order_col vendor None = (0, 0)"
| "order_col vendor (Some v) = (1, v)"

definition desc :: "int \<times> int \<Rightarrow> int \<times> int" where
  "desc k = (- fst k, - snd k)"

subsection \<open>\<open>annotated_event_query\<close>\<close>

definition is_active :: "order \<Rightarrow> bool" where
  "is_active orow = (status orow = STATUS_PENDING \<or> status orow = STATUS_PAID)"

text \<open>The grouped count subquery has no row, hence NULL, when no order matches.\<close>

definition active_orders :: "event \<Rightarrow> nat option" where
  "active_orders e =
     (let c = length (filter is_active (orders e)) in if c = 0 then None else Some c)"

definition required_actions :: "event \<Rightarrow> bool" where
  "required_actions e = list_ex (\<lambda>ra. ra_done ra = False) (requiredactions e)"

definition annotate :: "db_vendor \<Rightarrow> bool \<Rightarrow> event \<Rightarrow> annotated_event" where
  "annotate vendor lz e =
     (let mn_from = Min_agg (map se_date_from (subevents e));
          mx_from = Max_agg (map se_date_from (subevents e));
          mx_to = Max_agg (map se_date_to (subevents e));
          mx_fromto = Greatest2 vendor (Max_agg (map se_date_to (subevents e)))
                                       (Max_agg (map se_date_from (subevents e)))
      in \<lparr>ev = e,
          order_count = (if \<not> lz then active_orders e else None),
          has_ra = (if \<not> lz then Some (required_actions e) else None),
          min_from = mn_from, max_from = mx_from, max_to = mx_to, max_fromto = mx_fromto,
          order_to = Coalesce [mx_fromto, mx_to, mx_from, date_to e, date_from e]\<rparr>)"

text \<open>
  \<open>visible\<close> is the result of \<open>request.user.get_events_with_any_permission(request)\<close>, the
  events the permission layer lets the user see.
\<close>

definition annotated_event_query :: "db_vendor \<Rightarrow> event list \<Rightarrow> bool \<Rightarrow> annotated_event list" where
  "annotated_event_query vendor visible lz = map (annotate vendor lz) visible"

subsection \<open>The three listings\<close>

text \<open>
  Each \<open>now()\<close> in a filter reads the clock when the filter is built, so a filter takes the
  two instants it read. The filters and orderings are written twice in the source, in
  \<open>organiser_dashboard\<close> and in \<open>user_index_widgets_lazy\<close>, with the same text.
\<close>

definition upcoming_filter :: "timestamp \<Rightarrow> timestamp \<Rightarrow> annotated_event \<Rightarrow> bool" where
  "upcoming_filter now1 now2 a =
     (has_subevents (ev a) = False \<and>
      ((date_to (ev a) = None \<and> gte (date_from (ev a)) now1) \<or>
       (date_to (ev a) \<noteq> None \<and> gte (date_to (ev a)) now2)))"

definition past_filter :: "timestamp \<Rightarrow> timestamp \<Rightarrow> annotated_event \<Rightarrow> bool" where
  "past_filter now1 now2 a =
     (has_subevents (ev a) = False \<and>
      ((date_to (ev a) = None \<and> lt (date_from (ev a)) now1) \<or>
       (date_to (ev a) \<noteq> None \<and> lt (date_to (ev a)) now2)))"

definition series_filter :: "annotated_event \<Rightarrow> bool" where
  "series_filter a = (has_subevents (ev a) = True)"

text \<open>\<open>order_by('date_from', 'order_to', 'pk')\<close> and \<open>order_by('-order_to', 'pk')\<close>.\<close>

definition order_by_date_from_order_to_pk ::
  "db_vendor \<Rightarrow> annotated_event list \<Rightarrow> annotated_event list" where
  "order_by_date_from_order_to_pk vendor qs =
     sort_key (\<lambda>a. (order_col vendor (date_from (ev a)), order_col vendor (order_to a), pk (ev a))) qs"

definition order_by_desc_order_to_pk ::
  "db_vendor \<Rightarrow> annotated_event list \<Rightarrow> annotated_event list" where
  "order_by_desc_order_to_pk vendor qs =
     sort_key (\<lambda>a. (desc (order_col vendor (order_to a)), pk (ev a))) qs"

definition upcoming_qs ::
  "db_vendor \<Rightarrow> event list \<Rightarrow> bool \<Rightarrow> timestamp \<Rightarrow> timestamp \<Rightarrow> annotated_event list" where
  "upcoming_qs vendor visible lz now1 now2 =
     order_by_date_from_order_to_pk vendor
       (filter (upcoming_filter now1 now2) (annotated_event_query vendor visible lz))"

definition past_qs ::
  "db_vendor \<Rightarrow> event list \<Rightarrow> bool \<Rightarrow> timestamp \<Rightarrow> timestamp \<Rightarrow> annotated_event list" where
  "past_qs vendor visible lz now1 now2 =
     order_by_desc_order_to_pk vendor
       (filter (past_filter now1 now2) (annotated_event_query vendor visible lz))"

definition series_qs :: "db_vendor \<Rightarrow> event list \<Rightarrow> bool \<Rightarrow> annotated_event list" where
  "series_qs vendor visible lz =
     order_by_desc_order_to_pk vendor
       (filter series_filter (annotated_event_query vendor visible lz))"

subsection \<open>\<open>widgets_for_event_qs\<close>\<close>

text \<open>\<open>str\<close> of an integer, for the token \<open>f'event-{event.pk}'\<close>.\<close>

definition digit_char :: "nat \<Rightarrow> char" where
  "digit_char d = ''0123456789'' ! d"

fun str_nat :: "nat \<Rightarrow> string" where
  "str_nat n = (if n < 10 then [digit_char n] else str_nat (n div 10) @ [digit_char (n mod 10)])"

declare str_nat.simps [simp del]

definition str_int :: "int \<Rightarrow> string" where
  "str_int i = (if i < 0 then CHR ''-'' # str_nat (nat (- i)) else str_nat (nat i))"

text \<open>
  The dict appended for one event. The markup of a widget that is not lazy is the template
  \<open>tpl\<close> filled in by helpers outside these files (URL reversing, date and time formatting,
  translation, escaping); \<open>render\<close> stands for it. A lazy widget has the empty content.
\<close>

definition event_widget :: "(annotated_event \<Rightarrow> string) \<Rightarrow> bool \<Rightarrow> annotated_event \<Rightarrow> widget" where
  "event_widget render lz a =
     \<lparr>content = (if \<not> lz then render a else []),
      display_size = Some ''small'',
      priority = Some 100,
      lazy = Some (''event-'' @ str_int (pk (ev a))),
      container_class = Some ''widget-container widget-container-event''\<rparr>"

text \<open>
  \<open>qs[:nmax]\<close> in both branches (prefetching does not change the rows), then one widget per
  event in order. The callers pass a literal count, a natural number. Of the parameters
  \<open>request\<close> and \<open>user\<close> of the source, the first is read by the markup only (the time
  zone of the request) and the second is not read; both are left to \<open>render\<close>.
\<close>

definition widgets_for_event_qs ::
  "(annotated_event \<Rightarrow> string) \<Rightarrow> annotated_event list \<Rightarrow> nat \<Rightarrow> bool \<Rightarrow> widget list" where
  "widgets_for_event_qs render qs nmax lz =
     (let events = take nmax qs in map (event_widget render lz) events)"

subsection \<open>\<open>organiser_dashboard\<close> and \<open>user_index_widgets_lazy\<close>\<close>

text \<open>The values of \<open>django.conf.settings\<close> that the two files read.\<close>

record settings =
  DEBUG :: bool
  SITE_URL :: string
  TALK_HOSTNAME :: string
  PRETIX_ADMIN_AUDIT_COMMENTS :: bool

text \<open>
  What the two views take from the request and its collaborators: the database vendor, the
  events visible to the user, the lists returned by the receivers of the signal
  \<open>user_dashboard_widgets\<close>, whether each team of the user may create events, the renderer,
  and the instants read by the four calls of \<open>now()\<close>, in order.
\<close>

record dashboard_request =
  vendor :: db_vendor
  visible_events :: "event list"
  user_dashboard_widgets :: "widget list list"
  teams_can_create_events :: "bool list"
  render_event :: "annotated_event \<Rightarrow> string"
  now :: "nat \<Rightarrow> timestamp"

record dashboard_ctx =
  widgets :: "widget list"
  can_create_event :: bool
  upcoming :: "widget list"
  past :: "widget list"
  series :: "widget list"
  ticket_component :: string
  talk_component :: string
  video_component :: string

definition organiser_dashboard :: "settings \<Rightarrow> dashboard_request \<Rightarrow> dashboard_ctx" where
  "organiser_dashboard conf request =
     \<lparr>widgets = rearrange (concat (user_dashboard_widgets request)),
      can_create_event = list_ex (\<lambda>t. t = True) (teams_can_create_events request),
      upcoming = widgets_for_event_qs (render_event request)
                   (upcoming_qs (vendor request) (visible_events request) True
                      (now request 0) (now request 1)) 7 True,
      past = widgets_for_event_qs (render_event request)
               (past_qs (vendor request) (visible_events request) True
                  (now request 2) (now request 3)) 8 True,
      series = widgets_for_event_qs (render_event request)
                 (series_qs (vendor request) (visible_events request) True) 8 True,
      ticket_component = SITE_URL conf @ ''/control'',
      talk_component = TALK_HOSTNAME conf @ ''/orga'',
      video_component = ''#''\<rparr>"

definition user_index_widgets_lazy :: "dashboard_request \<Rightarrow> widget list" where
  "user_index_widgets_lazy request =
     widgets_for_event_qs (render_event request)
       (upcoming_qs (vendor request) (visible_events request) False
          (now request 0) (now request 1)) 7 False
     @ widgets_for_event_qs (render_event request)
         (past_qs (vendor request) (visible_events request) False
            (now request 2) (now request 3)) 8 False
     @ widgets_for_event_qs (render_event request)
         (series_qs (vendor request) (visible_events request) False) 8 False"

subsection \<open>The coalescing chain in the words of the specification\<close>

text \<open>The first value of a list of nullable values that is not NULL; NULL when there is none.\<close>

definition first_non_null :: "'a option list \<Rightarrow> 'a option" where
  "first_non_null xs = (case dropWhile (\<lambda>x. x = None) xs of [] \<Rightarrow> None | x # rest \<Rightarrow> x)"

text \<open>
  The latest of the dates of a column that are not NULL; NULL when there is none. The
  greater of two nullable dates: when one of them is NULL, either that NULL or the other
  date, as \<open>null_wins\<close> says; databases differ in this.
\<close>

definition latest :: "timestamp option list \<Rightarrow> timestamp option" where
  "latest col =
     (if {t. Some t \<in> set col} = {} then None else Some (Max {t. Some t \<in> set col}))"

definition greater_of ::
  "bool \<Rightarrow> timestamp option \<Rightarrow> timestamp option \<Rightarrow> timestamp option" where
  "greater_of null_wins a b =
     (case a of
        None \<Rightarrow> (case b of None \<Rightarrow> None | Some y \<Rightarrow> if null_wins then None else Some y)
      | Some x \<Rightarrow> (case b of None \<Rightarrow> if null_wins then None else Some x
                              | Some y \<Rightarrow> Some (max x y)))"

section \<open>Context enrichment (context.py)\<close>

subsection \<open>The request and its collaborators\<close>

record resolver_match =
  url_name :: "string option"

record organizer =
  org_slug :: string

record staff_session =
  ss_date_end :: "timestamp option"
  ss_comment :: "string option"

text \<open>What the code stores in the session: a session key (a string, or \<open>None\<close> before the
  session is saved) and the flag \<open>True\<close>.\<close>

datatype session_value = SStr string | SBool bool | SNone

record user =
  is_authenticated :: bool
  is_staff :: bool
  has_active_staff_session :: "string option \<Rightarrow> bool"
  staff_sessions :: "staff_session list"

text \<open>
  \<open>event\<close> and \<open>organizer\<close> are the attributes that \<open>getattr(request, ..., None)\<close> reads:
  \<open>None\<close> when the attribute is missing. \<open>GET\<close> maps a query parameter to its value.
\<close>

record request =
  path_info :: string
  path :: string
  user :: user
  session_key :: "string option"
  GET :: "string \<rightharpoonup> string"
  event :: "event option"
  organizer :: "organizer option"

type_synonym nav_item = string

text \<open>
  The functions the code calls in other modules. \<open>resolve\<close> returns the match of a path or
  raises \<open>Resolver404\<close>, which is \<open>None\<close> here. \<open>EventCreatedFor_BOTH\<close> is the value of the
  enumeration member \<open>EventCreatedFor.BOTH\<close>, \<open>int_max_str_digits\<close> the interpreter's limit
  on the digits that \<open>int\<close> converts.
\<close>

record env =
  resolve :: "string \<Rightarrow> resolver_match option"
  get_script_prefix :: string
  get_global_navigation :: "request \<Rightarrow> nav_item list"
  get_event_navigation :: "request \<Rightarrow> nav_item list"
  is_video_enabled :: "event \<Rightarrow> bool"
  get_event_domain :: "event \<Rightarrow> string option"
  has_event_permission :: "user \<Rightarrow> organizer \<Rightarrow> event \<Rightarrow> string \<Rightarrow> request \<Rightarrow> bool"
  urljoin :: "string \<Rightarrow> string \<Rightarrow> string"
  EventCreatedFor_BOTH :: string
  int_max_str_digits :: nat

subsection \<open>The context and the state the code changes\<close>

datatype value_error = ValueError string

datatype log_record = LogError string value_error

datatype ctx_value =
    CBool bool
  | CStr string
  | COptStr "string option"
  | CSettings
  | CGlobalSettings
  | CNav "nav_item list"
  | CStaffSessions "staff_session list"
  | CSession session_value
  | CSubevents "subevent list"

type_synonym ctx = "string \<rightharpoonup> ctx_value"

text \<open>
  \<open>event_cache\<close> is \<open>request.event.cache\<close>: a key holds a value and the time to live it was
  stored with. \<open>session\<close> is \<open>request.session\<close>, \<open>logs\<close> what the module's logger received,
  \<open>memo\<close> the attribute \<open>_eventyay_common_default_context\<close> of the request.
\<close>

record state =
  event_cache :: "string \<rightharpoonup> bool \<times> nat"
  session :: "string \<rightharpoonup> session_value"
  logs :: "log_record list"
  memo :: "ctx option"

definition cache_get :: "state \<Rightarrow> string \<Rightarrow> bool option" where
  "cache_get st k = map_option fst (event_cache st k)"

definition cache_set :: "state \<Rightarrow> string \<Rightarrow> bool \<Rightarrow> nat \<Rightarrow> state" where
  "cache_set st k v timeout = st\<lparr>event_cache := (event_cache st)(k \<mapsto> (v, timeout))\<rparr>"

subsection \<open>Strings and \<open>int()\<close>\<close>

definition startswith :: "string \<Rightarrow> string \<Rightarrow> bool" where
  "startswith s p = (take (length p) s = p)"

text \<open>
  A string is a list of code points below 256. Among these, \<open>str.strip()\<close> and \<open>int()\<close>
  take as whitespace: tab, line feed, vertical tab, form feed, carriage return, the four
  separators 0x1C to 0x1F, the space, the next-line control 0x85 and the no-break space
  0xA0. The only decimal digits among them are 0 to 9.
\<close>

definition is_space :: "char \<Rightarrow> bool" where
  "is_space c = (c \<in> set [CHR 0x09, CHR 0x0A, CHR 0x0B, CHR 0x0C, CHR 0x0D,
                            CHR 0x1C, CHR 0x1D, CHR 0x1E, CHR 0x1F, CHR 0x20,
                            CHR 0x85, CHR 0xA0])"

definition str_strip :: "string \<Rightarrow> string" where
  "str_strip s = rev (dropWhile is_space (rev (dropWhile is_space s)))"

definition is_digit :: "char \<Rightarrow> bool" where
  "is_digit c = (c \<in> set ''0123456789'')"

fun index_of :: "'a \<Rightarrow> 'a list \<Rightarrow> nat" where
  "index_of c [] = 0"
| "index_of c (x # xs) = (if x = c then 0 else Suc (index_of c xs))"

definition digit_val :: "char \<Rightarrow> nat" where
  "digit_val c = index_of c ''0123456789''"

text \<open>
  The digits of a decimal literal after its sign: digits, with single underscores allowed
  between two digits. \<open>acc\<close> is the value read so far.
\<close>

fun digits :: "nat \<Rightarrow> string \<Rightarrow> nat option" where
  "digits acc [] = Some acc"
| "digits acc [c] = (if is_digit c then Some (acc * 10 + digit_val c) else None)"
| "digits acc (c # d # cs) =
     (if is_digit c then digits (acc * 10 + digit_val c) (d # cs)
      else if c = CHR ''_'' \<and> is_digit d then digits acc (d # cs)
      else None)"

definition literal :: "string \<Rightarrow> nat option" where
  "literal t = (case t of [] \<Rightarrow> None | c # cs \<Rightarrow> if is_digit c then digits 0 t else None)"

text \<open>
  \<open>int(s)\<close> for a string: surrounding whitespace is dropped, then an optional sign and a
  literal; anything else raises \<open>ValueError\<close> (\<open>Inl\<close>). So does a literal with more
  digits than \<open>max_str_digits\<close>, the value of \<open>sys.get_int_max_str_digits()\<close>: 4300 unless
  it was changed, and 0 where there is no limit (as before Python 3.11). Every digit counts,
  leading zeros too; underscores do not. \<open>ValueError\<close> carries the string given to \<open>int\<close>.
\<close>

definition py_int :: "nat \<Rightarrow> string \<Rightarrow> value_error + int" where
  "py_int max_str_digits s =
     (let t = str_strip s;
          r = (case t of
                 [] \<Rightarrow> None
               | c # cs \<Rightarrow>
                   if c = CHR ''-'' then map_option (\<lambda>n. - int n) (literal cs)
                   else if c = CHR ''+'' then map_option int (literal cs)
                   else map_option int (literal t))
      in case r of
           None \<Rightarrow> Inl (ValueError s)
         | Some i \<Rightarrow>
             if 0 < max_str_digits \<and> max_str_digits < length (filter is_digit t)
             then Inl (ValueError s) else Inr i)"

subsection \<open>\<open>_default_context\<close>\<close>

text \<open>Lines 37 to 46: the keys every context under the prefix has.\<close>

definition base_ctx :: "settings \<Rightarrow> resolver_match \<Rightarrow> ctx" where
  "base_ctx conf url =
     [''url_name'' \<mapsto> COptStr (url_name url),
      ''settings'' \<mapsto> CSettings,
      ''django_settings'' \<mapsto> CSettings,
      ''DEBUG'' \<mapsto> CBool (DEBUG conf),
      ''talk_hostname'' \<mapsto> CStr (TALK_HOSTNAME conf),
      ''global_settings'' \<mapsto> CGlobalSettings]"

text \<open>Lines 49 to 60: navigation and staff sessions of an authenticated user.\<close>

definition staff_need_to_explain :: "settings \<Rightarrow> user \<Rightarrow> staff_session list" where
  "staff_need_to_explain conf u =
     (if is_staff u \<and> PRETIX_ADMIN_AUDIT_COMMENTS conf
      then filter (\<lambda>s. ss_comment s = None \<or> ss_comment s = Some [])
             (filter (\<lambda>s. ss_date_end s \<noteq> None) (staff_sessions u))
      else [])"

definition user_ctx :: "settings \<Rightarrow> env \<Rightarrow> request \<Rightarrow> ctx \<Rightarrow> ctx" where
  "user_ctx conf env request ctx =
     ctx(''nav_items'' \<mapsto> CNav (get_global_navigation env request),
         ''staff_session'' \<mapsto> CBool (has_active_staff_session (user request) (session_key request)),
         ''staff_need_to_explain'' \<mapsto> CStaffSessions (staff_need_to_explain conf (user request)))"

text \<open>Lines 63 to 72: the keys of a request with an event.\<close>

definition event_ctx :: "settings \<Rightarrow> env \<Rightarrow> event \<Rightarrow> ctx \<Rightarrow> ctx" where
  "event_ctx conf env e ctx =
     ctx(''talk_edit_url'' \<mapsto> CStr (urljoin env (TALK_HOSTNAME conf) (''/orga/event/'' @ slug e)),
         ''is_video_enabled'' \<mapsto> CBool (is_video_enabled env e),
         ''is_talk_event_created'' \<mapsto>
            CBool (if create_for e = EventCreatedFor_BOTH env \<or> talk_schedule_public e \<noteq> None
                   then True else False))"

text \<open>
  Lines 79 to 98: the warning about orders made in test mode. Outside test mode the cached
  value is used; when the cache has none, the existence of such an order is computed and
  stored for 30 seconds. The flag is that value \<open>and\<close> the permission \<open>can_view_orders\<close>.
  In test mode the flag is \<open>False\<close> and the cache is not touched.
\<close>

definition testmode_orders_exist :: "event \<Rightarrow> bool" where
  "testmode_orders_exist e = list_ex (\<lambda>orow. order_testmode orow = True) (orders e)"

definition complain_testmode_orders ::
  "env \<Rightarrow> request \<Rightarrow> organizer \<Rightarrow> event \<Rightarrow> ctx \<Rightarrow> state \<Rightarrow> ctx \<times> state" where
  "complain_testmode_orders env request org e ctx st =
     (if \<not> testmode e then
        (case cache_get st ''complain_testmode_orders'' of
           None \<Rightarrow>
             (let complain = testmode_orders_exist e;
                  st' = cache_set st ''complain_testmode_orders'' complain 30
              in (ctx(''complain_testmode_orders'' \<mapsto>
                        CBool (complain \<and>
                               has_event_permission env (user request) org e ''can_view_orders'' request)),
                  st'))
         | Some complain \<Rightarrow>
             (ctx(''complain_testmode_orders'' \<mapsto>
                    CBool (complain \<and>
                           has_event_permission env (user request) org e ''can_view_orders'' request)),
              st))
      else (ctx(''complain_testmode_orders'' \<mapsto> CBool False), st))"

text \<open>
  Lines 100 to 108: the child session of an event that is not live and has a domain.
  \<open>not child_sess\<close> holds for a missing key, \<open>None\<close>, the empty string and \<open>False\<close>.
\<close>

fun truthy :: "session_value option \<Rightarrow> bool" where
  "truthy None = False"
| "truthy (Some SNone) = False"
| "truthy (Some (SStr s)) = (s \<noteq> [])"
| "truthy (Some (SBool b)) = b"

definition session_key_value :: "string option \<Rightarrow> session_value" where
  "session_key_value k = (case k of None \<Rightarrow> SNone | Some s \<Rightarrow> SStr s)"

definition child_session ::
  "request \<Rightarrow> event \<Rightarrow> bool \<Rightarrow> ctx \<Rightarrow> state \<Rightarrow> ctx \<times> state" where
  "child_session request e has_domain ctx st =
     (if \<not> live e \<and> has_domain then
        (let child_sess_key = ''child_session_'' @ str_int (pk e);
             child_sess = session st child_sess_key;
             store_key = (ctx,
                  st\<lparr>session := (session st)(child_sess_key \<mapsto> session_key_value (session_key request),
                                              ''event_access'' \<mapsto> SBool True)\<rparr>)
         in case child_sess of
              None \<Rightarrow> store_key
            | Some v \<Rightarrow>
                if \<not> truthy child_sess then store_key
                else (ctx(''new_session'' \<mapsto> CSession v),
                      st\<lparr>session := (session st)(''event_access'' \<mapsto> SBool True)\<rparr>))
      else (ctx, st))"

text \<open>
  Lines 109 to 118: the selected sub-occurrence. \<open>ValueError\<close> is caught and logged; the key
  \<open>selected_subevents\<close> is only set when \<open>int\<close> returned.
\<close>

definition selected_subevents ::
  "env \<Rightarrow> request \<Rightarrow> event \<Rightarrow> ctx \<Rightarrow> state \<Rightarrow> ctx \<times> state" where
  "selected_subevents env request e ctx st =
     (if dict_get (GET request ''subevent'') [] \<noteq> [] then
        (let subevent_id = str_strip (dict_get (GET request ''subevent'') [])
         in case py_int (int_max_str_digits env) subevent_id of
              Inr pk' \<Rightarrow>
                (ctx(''selected_subevents'' \<mapsto> CSubevents (filter (\<lambda>s. se_pk s = pk') (subevents e))),
                 st)
            | Inl err \<Rightarrow>
                (ctx, st\<lparr>logs := logs st @ [LogError ''Error parsing subevent ID: %s'' err]\<rparr>))
      else (ctx, st))"

text \<open>Lines 74 to 118: the keys of a request with an event and an organizer.\<close>

definition organizer_ctx ::
  "env \<Rightarrow> request \<Rightarrow> organizer \<Rightarrow> event \<Rightarrow> ctx \<Rightarrow> state \<Rightarrow> ctx \<times> state" where
  "organizer_ctx env request org e ctx st =
     (let has_domain = (get_event_domain env e \<noteq> None);
          ctx1 = ctx(''nav_items'' \<mapsto> CNav (get_event_navigation env request),
                     ''has_domain'' \<mapsto> CBool has_domain);
          (ctx2, st2) = complain_testmode_orders env request org e ctx1 st;
          (ctx3, st3) = child_session request e has_domain ctx2 st2
      in selected_subevents env request e ctx3 st3)"

definition default_context :: "settings \<Rightarrow> env \<Rightarrow> request \<Rightarrow> state \<Rightarrow> ctx \<times> state" where
  "default_context conf env request st =
     (case resolve env (path_info request) of
        None \<Rightarrow> (Map.empty, st)
      | Some url \<Rightarrow>
          if \<not> startswith (path request) (get_script_prefix env @ ''common'')
          then (Map.empty, st)
          else
            (let ctx = base_ctx conf url in
             if is_authenticated (user request) then
               (let ctx = user_ctx conf env request ctx in
                case event request of
                  None \<Rightarrow> (ctx, st)
                | Some e \<Rightarrow>
                    (let ctx = event_ctx conf env e ctx in
                     case organizer request of
                       None \<Rightarrow> (ctx, st)
                     | Some org \<Rightarrow> organizer_ctx env request org e ctx st))
             else (ctx, st)))"

text \<open>\<open>contextprocessor\<close>: the context is computed once for a request and kept on it.\<close>

definition contextprocessor :: "settings \<Rightarrow> env \<Rightarrow> request \<Rightarrow> state \<Rightarrow> ctx \<times> state" where
  "contextprocessor conf env request st =
     (case memo st of
        Some ctx \<Rightarrow> (ctx, st)
      | None \<Rightarrow>
          (let (ctx, st') = default_context conf env request st
           in (ctx, st'\<lparr>memo := Some ctx\<rparr>)))"

subsection \<open>Conditions on a request\<close>

text \<open>
  The request reaches the part of \<open>_default_context\<close> that is run for an event of an
  organizer: the path resolves and lies under the prefix, the user is authenticated, and the
  request has the event \<open>e\<close> and the organizer \<open>org\<close>.
\<close>

definition event_scoped :: "env \<Rightarrow> request \<Rightarrow> organizer \<Rightarrow> event \<Rightarrow> bool" where
  "event_scoped env request org e =
     (resolve env (path_info request) \<noteq> None \<and>
      startswith (path request) (get_script_prefix env @ ''common'') \<and>
      is_authenticated (user request) \<and>
      event request = Some e \<and> organizer request = Some org)"

definition is_event_scoped :: "env \<Rightarrow> request \<Rightarrow> bool" where
  "is_event_scoped env request =
     (resolve env (path_info request) \<noteq> None \<and>
      startswith (path request) (get_script_prefix env @ ''common'') \<and>
      is_authenticated (user request) \<and>
      event request \<noteq> None \<and> organizer request \<noteq> None)"

text \<open>The collaborators that take the request answer alike for two requests.\<close>

definition same_answers :: "env \<Rightarrow> request \<Rightarrow> request \<Rightarrow> bool" where
  "same_answers env r r' =
     (get_global_navigation env r = get_global_navigation env r' \<and>
      get_event_navigation env r = get_event_navigation env r' \<and>
      (\<lambda>u org e p. has_event_permission env u org e p r) =
      (\<lambda>u org e p. has_event_permission env u org e p r'))"

section \<open>Concrete inputs\<close>

text \<open>Five widgets: two without one of the optional keys, one with an unknown size.\<close>

definition wa :: widget where
  "wa = \<lparr>content = ''a'', display_size = Some ''big'', priority = None,
          lazy = None, container_class = None\<rparr>"

definition wb :: widget where
  "wb = \<lparr>content = ''b'', display_size = Some ''huge'', priority = Some 100,
          lazy = None, container_class = None\<rparr>"

definition wc :: widget where
  "wc = \<lparr>content = ''c'', display_size = None, priority = Some 1,
          lazy = None, container_class = None\<rparr>"

definition wd :: widget where
  "wd = \<lparr>content = ''d'', display_size = Some ''full'', priority = Some 100,
          lazy = None, container_class = None\<rparr>"

definition we :: widget where
  "we = \<lparr>content = ''e'', display_size = Some ''small'', priority = Some 100,
          lazy = None, container_class = None\<rparr>"

text \<open>
  Two single events without an end date, starting 2024-01-10 and 2024-02-01 (00:00 UTC), and
  a dashboard request at 2024-01-05 that sees them, the later one first.
\<close>

definition event_jan :: event where
  "event_jan = \<lparr>pk = 2, slug = ''jan'', has_subevents = False,
     date_from = Some 1704844800, date_to = None, subevents = [],
     live = True, testmode = False, orders = [], requiredactions = [],
     create_for = ''tickets'', talk_schedule_public = None\<rparr>"


text \<open>
  A series with two sub-occurrences: 2024-03-01 to 2024-03-02, and 2024-04-01 without an end.
\<close>

definition event_series :: event where
  "event_series = \<lparr>pk = 3, slug = ''series'', has_subevents = True,
     date_from = Some 1709251200, date_to = None,
     subevents = [\<lparr>se_pk = 1, se_date_from = Some 1709251200, se_date_to = Some 1709337600\<rparr>,
                  \<lparr>se_pk = 2, se_date_from = Some 1711929600, se_date_to = None\<rparr>],
     live = True, testmode = False, orders = [], requiredactions = [],
     create_for = ''tickets'', talk_schedule_public = None\<rparr>"


definition conf0 :: settings where
  "conf0 = \<lparr>DEBUG = False, SITE_URL = ''https://example.org'',
     TALK_HOSTNAME = ''https://talk.example.org'', PRETIX_ADMIN_AUDIT_COMMENTS = True\<rparr>"


text \<open>
  Collaborators and requests for the context: a resolver that knows the paths under
  \<open>/common\<close> and \<open>/control\<close>, a user who may view orders, and a state whose cache says that
  orders made in test mode exist.
\<close>

definition env0 :: env where
  "env0 = \<lparr>resolve = (\<lambda>p. if startswith p ''/common'' \<or> startswith p ''/control''
                             then Some \<lparr>url_name = Some ''page''\<rparr> else None),
            get_script_prefix = ''/'',
            get_global_navigation = (\<lambda>r. [''Dashboard'']),
            get_event_navigation = (\<lambda>r. [''Settings'']),
            is_video_enabled = (\<lambda>e. False),
            get_event_domain = (\<lambda>e. None),
            has_event_permission = (\<lambda>u org e p r. p = ''can_view_orders''),
            urljoin = (\<lambda>base url. base @ url),
            EventCreatedFor_BOTH = ''all'',
            int_max_str_digits = 4300\<rparr>"

definition user0 :: user where
  "user0 = \<lparr>is_authenticated = True, is_staff = False,
             has_active_staff_session = (\<lambda>k. False), staff_sessions = []\<rparr>"

definition org0 :: organizer where
  "org0 = \<lparr>org_slug = ''org''\<rparr>"

definition event_test :: event where
  "event_test = event_jan\<lparr>testmode := True, live := False\<rparr>"

definition request_event :: request where
  "request_event = \<lparr>path_info = ''/common/event/org/jan/'', path = ''/common/event/org/jan/'',
     user = user0, session_key = Some ''k1'', GET = [''subevent'' \<mapsto> ''abc''],
     event = Some event_jan, organizer = Some org0\<rparr>"

definition request_test :: request where
  "request_test = request_event\<lparr>event := Some event_test\<rparr>"

definition request_global :: request where
  "request_global = \<lparr>path_info = ''/common/'', path = ''/common/'',
     user = user0, session_key = Some ''k1'', GET = [''subevent'' \<mapsto> ''abc''],
     event = None, organizer = None\<rparr>"

definition request_404 :: request where
  "request_404 = request_event\<lparr>path_info := ''/nowhere'', path := ''/nowhere''\<rparr>"

definition request_control :: request where
  "request_control = request_event\<lparr>path_info := ''/control/'', path := ''/control/''\<rparr>"

definition state_cached :: state where
  "state_cached = \<lparr>event_cache = [''complain_testmode_orders'' \<mapsto> (True, 30)],
     session = Map.empty, logs = [], memo = None\<rparr>"

section \<open>Properties of the ranking\<close>

lemma sort_key_w_spec: "sort_key_w w = (spec_priority w, spec_size_tier w)"
  by (simp add: sort_key_w_def spec_priority_def spec_size_tier_def dict_get_def mapping_def
      split: option.split)

lemma sorted_py_reverse_desc:
  "sorted_wrt (\<lambda>a b. key b \<le> key a) (sorted_py key True xs)"
proof -
  have "sorted (map key (sort_key key (rev xs)))"
    by (rule sorted_sort_key)
  then have "sorted_wrt (\<lambda>a b. key a \<le> key b) (sort_key key (rev xs))"
    by (simp add: sorted_map)
  then show ?thesis
    by (simp add: sorted_py_def sorted_wrt_rev)
qed

lemma sorted_py_stable:
  "filter (\<lambda>y. key y = k) (sorted_py key r xs) = filter (\<lambda>y. key y = k) xs"
  by (simp add: sorted_py_def sort_key_stable rev_filter [symmetric])

lemma mset_sorted_py: "mset (sorted_py key r xs) = mset xs"
  by (simp add: sorted_py_def)


lemma rearrange_sorted_wrt:
  "sorted_wrt (\<lambda>a b. sort_key_w b \<le> sort_key_w a) (rearrange ws)"
  by (simp add: rearrange_def sorted_py_reverse_desc)

lemma rearrange_nth_mono:
  assumes "i < j" "j < length (rearrange ws)"
  shows "sort_key_w (rearrange ws ! j) \<le> sort_key_w (rearrange ws ! i)"
  using rearrange_sorted_wrt [of ws] assms by (simp add: sorted_wrt_iff_nth_less)

lemma mset_rearrange: "mset (rearrange ws) = mset ws"
  by (simp add: rearrange_def mset_sorted_py)

lemma rearrange_example: "rearrange [wa, wb, wc, wd, we] = [wd, wb, we, wa, wc]"
  by (simp add: rearrange_def sorted_py_def sort_key_w_def dict_get_def mapping_def
      wa_def wb_def wc_def wd_def we_def less_eq_prod_def)

lemma sort_key_dyn_well:
  assumes "int_priority d" "hashable_size d"
  shows "sort_key_dyn d = Inr (PInt (spec_priority_d d), spec_size_tier_d d)"
  using assms
  by (auto simp add: sort_key_dyn_def mapping_get_def int_priority_def hashable_size_def
      spec_priority_d_def spec_size_tier_d_def dict_get_def mapping_def Let_def
      split: option.splits pyval.splits)

lemma keys_of_well:
  assumes "list_all (\<lambda>d. int_priority d \<and> hashable_size d) ds"
  shows "keys_of sort_key_dyn ds = Inr (map (\<lambda>d. (PInt (spec_priority_d d), spec_size_tier_d d)) ds)"
  using assms by (induction ds) (simp_all add: sort_key_dyn_well)

lemma tuple_lt_int:
  "tuple_lt (PInt a, s) (PInt b, t) = Inr ((a, s) < (b, t))"
  by (auto simp add: tuple_lt_def less_prod_def)

lemma insort_by_insort_key:
  assumes "\<forall>y\<in>set ys. lessp y x \<longleftrightarrow> f y < f x"
  shows "insort_by lessp x ys = insort_key f x ys"
  using assms by (induction ys) (auto simp add: not_le)

lemma sort_by_sort_key:
  assumes "\<forall>a\<in>set xs. \<forall>b\<in>set xs. lessp a b \<longleftrightarrow> f a < f b"
  shows "sort_by lessp xs = sort_key f xs"
  using assms
proof (induction xs)
  case Nil
  then show ?case by (simp add: sort_by_def)
next
  case (Cons x xs)
  then have ih: "sort_by lessp xs = sort_key f xs"
    by simp
  have "insort_by lessp x (sort_key f xs) = insort_key f x (sort_key f xs)"
    using Cons.prems by (intro insort_by_insort_key) simp
  then show ?case
    using ih by (simp add: sort_by_def sort_key_def)
qed

lemma insort_key_map:
  "insort_key g (h x) (map h ys) = map h (insort_key (\<lambda>y. g (h y)) x ys)"
  by (induction ys) simp_all

lemma sort_key_map: "sort_key g (map h xs) = map h (sort_key (\<lambda>y. g (h y)) xs)"
  by (induction xs) (simp_all add: insort_key_map)


lemma no_raise_int_keys:
  "\<not> list_ex (\<lambda>k. list_ex (\<lambda>k'. raises (tuple_lt k k'))
       (map (\<lambda>d. (PInt (spec_priority_d d), spec_size_tier_d d)) ds))
     (map (\<lambda>d. (PInt (spec_priority_d d), spec_size_tier_d d)) ds)"
  by (simp add: list_ex_iff raises_def tuple_lt_int)

lemma decorated_sort:
  fixes ds :: "pydict list"
  defines "h \<equiv> \<lambda>d. ((PInt (spec_priority_d d), spec_size_tier_d d), d)"
  shows "sort_by (\<lambda>a b. tuple_lt (fst a) (fst b) = Inr True) (map h ds) =
         map h (sort_key (\<lambda>d. (spec_priority_d d, spec_size_tier_d d)) ds)"
proof -
  let ?f = "\<lambda>a :: (pyval \<times> int) \<times> pydict.
    ((case fst (fst a) of PInt p \<Rightarrow> p | other \<Rightarrow> 0), snd (fst a))"
  have "sort_by (\<lambda>a b. tuple_lt (fst a) (fst b) = Inr True) (map h ds) = sort_key ?f (map h ds)"
    by (rule sort_by_sort_key) (auto simp add: h_def tuple_lt_int)
  also have "\<dots> = map h (sort_key (\<lambda>d. ?f (h d)) ds)"
    by (rule sort_key_map)
  also have "(\<lambda>d. ?f (h d)) = (\<lambda>d. (spec_priority_d d, spec_size_tier_d d))"
    by (simp add: h_def)
  finally show ?thesis .
qed

lemma rearrange_dyn_well:
  assumes "list_all (\<lambda>d. int_priority d \<and> hashable_size d) ds"
  shows "rearrange_dyn ds =
         Inr (sorted_py (\<lambda>d. (spec_priority_d d, spec_size_tier_d d)) True ds)"
proof -
  let ?h = "\<lambda>d. ((PInt (spec_priority_d d), spec_size_tier_d d), d)"
  have z: "zip (map (\<lambda>d. (PInt (spec_priority_d d), spec_size_tier_d d)) ds) ds = map ?h ds"
    by (induction ds) simp_all
  have "map snd (rev (sort_by (\<lambda>a b. tuple_lt (fst a) (fst b) = Inr True) (rev (map ?h ds)))) =
        rev (sort_key (\<lambda>d. (spec_priority_d d, spec_size_tier_d d)) (rev ds))"
    using decorated_sort [of "rev ds"] by (simp add: rev_map comp_def)
  then show ?thesis
    using no_raise_int_keys [of ds]
    by (simp add: rearrange_dyn_def sorted_dyn_def keys_of_well [OF assms] z sorted_py_def Let_def)
qed

lemma well_to_dict: "int_priority (to_dict w) \<and> hashable_size (to_dict w)"
  by (simp add: int_priority_def hashable_size_def to_dict_def split: option.split)

lemma spec_key_to_dict:
  "(spec_priority_d (to_dict w), spec_size_tier_d (to_dict w)) = sort_key_w w"
  by (simp add: sort_key_w_spec spec_priority_d_def spec_size_tier_d_def spec_priority_def
      spec_size_tier_def to_dict_def split: option.split)

text \<open>On typed descriptors the ranking on dicts is the typed ranking.\<close>

lemma rearrange_dyn_typed:
  "rearrange_dyn (map to_dict ws) = Inr (map to_dict (rearrange ws))"
proof -
  have "list_all (\<lambda>d. int_priority d \<and> hashable_size d) (map to_dict ws)"
    by (simp add: list_all_iff well_to_dict)
  then have "rearrange_dyn (map to_dict ws) =
      Inr (sorted_py (\<lambda>d. (spec_priority_d d, spec_size_tier_d d)) True (map to_dict ws))"
    by (rule rearrange_dyn_well)
  also have "sorted_py (\<lambda>d. (spec_priority_d d, spec_size_tier_d d)) True (map to_dict ws) =
      map to_dict (sorted_py sort_key_w True ws)"
  proof -
    have "sort_key (\<lambda>d. (spec_priority_d d, spec_size_tier_d d)) (map to_dict (rev ws)) =
        map to_dict (sort_key sort_key_w (rev ws))"
      by (simp add: sort_key_map spec_key_to_dict)
    then show ?thesis
      by (simp add: sorted_py_def rev_map)
  qed
  finally show ?thesis
    by (simp add: rearrange_def)
qed

lemma sorted_py_nth_desc:
  assumes "i < j" "j < length (sorted_py key True xs)"
  shows "key (sorted_py key True xs ! j) \<le> key (sorted_py key True xs ! i)"
  using sorted_py_reverse_desc [of key xs] assms by (simp add: sorted_wrt_iff_nth_less)

text \<open>
  C1, as the code has it. For every list of widget descriptors in which each priority,
  where present, is an integer and each size, where present, can be hashed, \<open>rearrange\<close>
  does not raise: it returns a permutation of the list ordered by descending (priority,
  size tier), of two positions the later one having the smaller priority, or the same
  priority and a size tier that is not larger. The key it sorts by is the pair of the
  specification: priority with default 1; tier 2 for big, 3 for full, and 1 for small, for
  a missing size and for any other value.
\<close>

theorem rearrange_dyn_descending:
  "(int_priority d \<and> hashable_size d \<longrightarrow>
      sort_key_dyn d = Inr (PInt (spec_priority_d d), spec_size_tier_d d)) \<and>
   (list_all (\<lambda>d. int_priority d \<and> hashable_size d) ds \<longrightarrow>
      (\<exists>out. rearrange_dyn ds = Inr out \<and> length out = length ds \<and> mset out = mset ds \<and>
         (\<forall>i j. i < j \<and> j < length out \<longrightarrow>
            spec_priority_d (out ! j) < spec_priority_d (out ! i) \<or>
            (spec_priority_d (out ! j) = spec_priority_d (out ! i) \<and>
             spec_size_tier_d (out ! j) \<le> spec_size_tier_d (out ! i)))))"
proof (intro conjI impI)
  assume "int_priority d \<and> hashable_size d"
  then show "sort_key_dyn d = Inr (PInt (spec_priority_d d), spec_size_tier_d d)"
    by (simp add: sort_key_dyn_well)
next
  let ?key = "\<lambda>d. (spec_priority_d d, spec_size_tier_d d)"
  let ?out = "sorted_py ?key True ds"
  assume "list_all (\<lambda>d. int_priority d \<and> hashable_size d) ds"
  then have r: "rearrange_dyn ds = Inr ?out"
    by (rule rearrange_dyn_well)
  have m: "mset ?out = mset ds"
    by (rule mset_sorted_py)
  then have l: "length ?out = length ds"
    by (rule mset_eq_length)
  have o: "\<forall>i j. i < j \<and> j < length ?out \<longrightarrow>
            spec_priority_d (?out ! j) < spec_priority_d (?out ! i) \<or>
            (spec_priority_d (?out ! j) = spec_priority_d (?out ! i) \<and>
             spec_size_tier_d (?out ! j) \<le> spec_size_tier_d (?out ! i))"
  proof (intro allI impI)
    fix i j
    assume "i < j \<and> j < length ?out"
    then have "?key (?out ! j) \<le> ?key (?out ! i)"
      using sorted_py_nth_desc [of i j ?key ds] by blast
    then show "spec_priority_d (?out ! j) < spec_priority_d (?out ! i) \<or>
            (spec_priority_d (?out ! j) = spec_priority_d (?out ! i) \<and>
             spec_size_tier_d (?out ! j) \<le> spec_size_tier_d (?out ! i))"
      by (auto simp add: less_eq_prod_def)
  qed
  show "\<exists>out. rearrange_dyn ds = Inr out \<and> length out = length ds \<and> mset out = mset ds \<and>
         (\<forall>i j. i < j \<and> j < length out \<longrightarrow>
            spec_priority_d (out ! j) < spec_priority_d (out ! i) \<or>
            (spec_priority_d (out ! j) = spec_priority_d (out ! i) \<and>
             spec_size_tier_d (out ! j) \<le> spec_size_tier_d (out ! i)))"
    using r l m o by blast
qed

theorem rearrange_dyn_descending_witness:
  "int_priority (to_dict wb) \<and> hashable_size (to_dict wb) \<and>
   sort_key_dyn (to_dict wb) = Inr (PInt 100, 1) \<and>
   list_all (\<lambda>d. int_priority d \<and> hashable_size d) (map to_dict [wa, wb, wc, wd, we]) \<and>
   rearrange_dyn (map to_dict [wa, wb, wc, wd, we]) = Inr (map to_dict [wd, wb, we, wa, wc])"
proof -
  note t = rearrange_dyn_descending [of "to_dict wb" "map to_dict [wa, wb, wc, wd, we]"]
  have w: "list_all (\<lambda>d. int_priority d \<and> hashable_size d) (map to_dict [wa, wb, wc, wd, we])"
    by (simp add: well_to_dict)
  have v: "spec_priority_d (to_dict wb) = 100" "spec_size_tier_d (to_dict wb) = 1"
    by (simp_all add: spec_priority_d_def spec_size_tier_d_def to_dict_def wb_def)
  from t well_to_dict [of wb] have "sort_key_dyn (to_dict wb) =
      Inr (PInt (spec_priority_d (to_dict wb)), spec_size_tier_d (to_dict wb))"
    by blast
  then have k: "sort_key_dyn (to_dict wb) = Inr (PInt 100, 1)"
    by (simp add: v)
  have r: "rearrange_dyn (map to_dict [wa, wb, wc, wd, we]) =
      Inr (map to_dict [wd, wb, we, wa, wc])"
    by (simp only: rearrange_dyn_typed rearrange_example)
  show ?thesis
    using well_to_dict [of wb] k w r by blast
qed

text \<open>
  The claim C1 as written fails: a priority that is \<open>None\<close> next to an integer priority, and
  a size that cannot be hashed, make \<open>rearrange\<close> raise \<open>TypeError\<close>.
\<close>

theorem rearrange_raises_counterexample:
  "rearrange_dyn [[''priority'' \<mapsto> PNone], [''priority'' \<mapsto> PInt 5]] = Inl TypeError \<and>
   rearrange_dyn [[''display_size'' \<mapsto> PList [1]]] = Inl TypeError"
  by (simp add: rearrange_dyn_def sorted_dyn_def sort_key_dyn_def mapping_get_def dict_get_def
      tuple_lt_def raises_def Let_def)

text \<open>
  C2. For every list of widget descriptors and every pair of its elements \<open>a\<close>, \<open>b\<close> with
  the priority of \<open>a\<close> greater than the priority of \<open>b\<close> (the priority as the sort key
  reads it, default 1), both are in the output of \<open>rearrange\<close> and every occurrence of \<open>a\<close>
  stands before every occurrence of \<open>b\<close>. The sort is stable: for every key, the elements
  with that key come in the output in the order they have in the input.
\<close>

theorem rearrange_priority_first_stable:
  "(a \<in> set ws \<and> b \<in> set ws \<and> fst (sort_key_w b) < fst (sort_key_w a) \<longrightarrow>
      a \<in> set (rearrange ws) \<and> b \<in> set (rearrange ws) \<and>
      (\<forall>i j. i < length (rearrange ws) \<and> j < length (rearrange ws) \<and>
             rearrange ws ! i = a \<and> rearrange ws ! j = b \<longrightarrow> i < j)) \<and>
   filter (\<lambda>w. sort_key_w w = k) (rearrange ws) = filter (\<lambda>w. sort_key_w w = k) ws"
proof (intro conjI impI allI)
  have s: "set (rearrange ws) = set ws"
    using mset_rearrange [of ws] by (rule mset_eq_setD)
  assume h: "a \<in> set ws \<and> b \<in> set ws \<and> fst (sort_key_w b) < fst (sort_key_w a)"
  show "a \<in> set (rearrange ws)" "b \<in> set (rearrange ws)"
    using h s by simp_all
  fix i j
  assume ij: "i < length (rearrange ws) \<and> j < length (rearrange ws) \<and>
             rearrange ws ! i = a \<and> rearrange ws ! j = b"
  show "i < j"
  proof (rule ccontr)
    assume "\<not> i < j"
    then consider "i = j" | "j < i" by linarith
    then show False
    proof cases
      case 1
      then show ?thesis using ij h by auto
    next
      case 2
      then have "sort_key_w (rearrange ws ! i) \<le> sort_key_w (rearrange ws ! j)"
        using ij rearrange_nth_mono [of j i ws] by blast
      then have "sort_key_w a \<le> sort_key_w b"
        using ij by simp
      then have "fst (sort_key_w a) \<le> fst (sort_key_w b)"
        by (auto simp add: less_eq_prod_def)
      then show ?thesis using h by simp
    qed
  qed
next
  show "filter (\<lambda>w. sort_key_w w = k) (rearrange ws) = filter (\<lambda>w. sort_key_w w = k) ws"
    by (simp add: rearrange_def sorted_py_stable)
qed

theorem rearrange_priority_first_stable_witness:
  "we \<in> set [wa, wb, wc, wd, we] \<and> wa \<in> set [wa, wb, wc, wd, we] \<and>
   fst (sort_key_w wa) < fst (sort_key_w we) \<and>
   rearrange [wa, wb, wc, wd, we] ! 2 = we \<and> rearrange [wa, wb, wc, wd, we] ! 3 = wa \<and>
   filter (\<lambda>w. sort_key_w w = (100, 1)) (rearrange [wa, wb, wc, wd, we]) = [wb, we]"
proof -
  note t = rearrange_priority_first_stable [of we "[wa, wb, wc, wd, we]" wa "(100, 1)"]
  have k: "sort_key_w wa = (1, 2)" "sort_key_w wb = (100, 1)" "sort_key_w wc = (1, 1)"
    "sort_key_w wd = (100, 3)" "sort_key_w we = (100, 1)"
    by (simp_all add: sort_key_w_def dict_get_def mapping_def wa_def wb_def wc_def wd_def we_def)
  show ?thesis
    using t by (simp add: rearrange_example k)
qed

text \<open>
  C10. For every input list the output of \<open>rearrange\<close> is a permutation of the input: the
  same descriptor records with the same multiplicities.
\<close>

theorem rearrange_permutation: "mset (rearrange ws) = mset ws"
  by (simp add: rearrange_def mset_sorted_py)

section \<open>Properties of the event listings\<close>

lemma Coalesce_first_non_null: "Coalesce xs = first_non_null xs"
  by (induction xs rule: Coalesce.induct) (simp_all add: first_non_null_def)







lemma length_widgets_for_event_qs:
  "length (widgets_for_event_qs render qs nmax lz) = min nmax (length qs)"
  by (simp add: widgets_for_event_qs_def Let_def min.commute)




lemma set_non_null: "set (non_null col) = {t. Some t \<in> set col}"
  by (induction col rule: non_null.induct) auto

lemma Max_agg_latest: "Max_agg col = latest col"
proof (cases "non_null col")
  case Nil
  then have "{t. Some t \<in> set col} = {}"
    using set_non_null [of col] by simp
  then show ?thesis
    using Nil by (simp add: Max_agg_def latest_def)
next
  case (Cons v vs)
  then have s: "{t. Some t \<in> set col} = set (v # vs)"
    using set_non_null [of col] by simp
  have "fold max vs v = Max (set (v # vs))"
    by (rule Max.set_eq_fold [symmetric])
  then show ?thesis
    using Cons s by (simp add: Max_agg_def latest_def)
qed

lemma Greatest2_greater_of: "Greatest2 vnd a b = greater_of (vnd \<noteq> PostgreSQL) a b"
  by (cases vnd; cases a; cases b) (simp_all add: greater_of_def)

lemma chain_any_greater:
  "first_non_null [greater_of nw a b, a, b, c, d] =
   first_non_null [greater_of nw' a b, a, b, c, d]"
  by (cases a; cases b) (simp_all add: first_non_null_def greater_of_def max_def)

lemma order_to_chain:
  "order_to (annotate vnd lz e) =
     first_non_null
       [greater_of nw (latest (map se_date_to (subevents e)))
                      (latest (map se_date_from (subevents e))),
        latest (map se_date_to (subevents e)),
        latest (map se_date_from (subevents e)),
        date_to e, date_from e]"
  using chain_any_greater [of "vnd \<noteq> PostgreSQL" _ _ _ _ nw]
  by (simp add: annotate_def Let_def Coalesce_first_non_null Max_agg_latest Greatest2_greater_of)

lemma order_to_closed:
  "order_to (annotate vnd lz e) =
     (case latest (map se_date_to (subevents e)) of
        Some mt \<Rightarrow> (case latest (map se_date_from (subevents e)) of
                      Some mf \<Rightarrow> Some (max mt mf) | None \<Rightarrow> Some mt)
      | None \<Rightarrow> (case latest (map se_date_from (subevents e)) of
                   Some mf \<Rightarrow> Some mf
                 | None \<Rightarrow> (case date_to e of Some t \<Rightarrow> Some t | None \<Rightarrow> date_from e)))"
  by (simp add: order_to_chain [of vnd lz e True] first_non_null_def greater_of_def
      split: option.split)

lemma order_to_series:
  "order_to (annotate vnd lz event_series) = Some 1711929600"
  by (cases vnd) (simp_all add: annotate_def Let_def Max_agg_def event_series_def)

text \<open>
  C4. For every event and every database the annotated field \<open>order_to\<close> is the first value
  that is not NULL in the chain: the greater of the latest end and the latest start of the
  sub-occurrences (whichever way the database treats a NULL among the two), the latest end,
  the latest start, the event's own end date, the event's own start date. Written out: with
  both a latest end and a latest start it is the greater of the two; with only one of them,
  that one; without sub-occurrence dates the event's end date, or its start date when it
  has no end date. For an event without sub-occurrences and without an end date it is the
  start date.
\<close>

theorem order_to_coalesce:
  "order_to (annotate vnd lz e) =
     first_non_null
       [greater_of null_wins (latest (map se_date_to (subevents e)))
                             (latest (map se_date_from (subevents e))),
        latest (map se_date_to (subevents e)),
        latest (map se_date_from (subevents e)),
        date_to e, date_from e] \<and>
   order_to (annotate vnd lz e) =
     (case latest (map se_date_to (subevents e)) of
        Some mt \<Rightarrow> (case latest (map se_date_from (subevents e)) of
                      Some mf \<Rightarrow> Some (max mt mf) | None \<Rightarrow> Some mt)
      | None \<Rightarrow> (case latest (map se_date_from (subevents e)) of
                   Some mf \<Rightarrow> Some mf
                 | None \<Rightarrow> (case date_to e of Some t \<Rightarrow> Some t | None \<Rightarrow> date_from e))) \<and>
   (subevents e = [] \<and> date_to e = None \<longrightarrow> order_to (annotate vnd lz e) = date_from e)"
proof (intro conjI impI)
  show "order_to (annotate vnd lz e) =
     first_non_null
       [greater_of null_wins (latest (map se_date_to (subevents e)))
                             (latest (map se_date_from (subevents e))),
        latest (map se_date_to (subevents e)),
        latest (map se_date_from (subevents e)),
        date_to e, date_from e]"
    by (rule order_to_chain)
  show "order_to (annotate vnd lz e) =
     (case latest (map se_date_to (subevents e)) of
        Some mt \<Rightarrow> (case latest (map se_date_from (subevents e)) of
                      Some mf \<Rightarrow> Some (max mt mf) | None \<Rightarrow> Some mt)
      | None \<Rightarrow> (case latest (map se_date_from (subevents e)) of
                   Some mf \<Rightarrow> Some mf
                 | None \<Rightarrow> (case date_to e of Some t \<Rightarrow> Some t | None \<Rightarrow> date_from e)))"
    by (rule order_to_closed)
next
  assume "subevents e = [] \<and> date_to e = None"
  then show "order_to (annotate vnd lz e) = date_from e"
    by (simp add: order_to_closed latest_def)
qed

theorem order_to_coalesce_witness:
  "subevents event_jan = [] \<and> date_to event_jan = None \<and>
   date_from event_jan = Some 1704844800 \<and>
   order_to (annotate MySQL False event_jan) = Some 1704844800 \<and>
   order_to (annotate MySQL False event_series) = Some 1711929600 \<and>
   order_to (annotate PostgreSQL True event_series) = Some 1711929600"
proof -
  note t = order_to_coalesce [of MySQL False event_jan True]
  have f: "subevents event_jan = []" "date_to event_jan = None"
    "date_from event_jan = Some 1704844800"
    by (simp_all add: event_jan_def)
  from t f have "order_to (annotate MySQL False event_jan) = date_from event_jan"
    by blast
  then show ?thesis
    using f by (simp add: order_to_series)
qed



text \<open>
  C6. For every query and every count \<open>nmax\<close>, \<open>widgets_for_event_qs\<close> produces one widget
  for each of the first \<open>nmax\<close> rows, so at most \<open>nmax\<close> widgets. \<open>organiser_dashboard\<close>
  passes 7 for the upcoming listing and 8 for the past and the series listing, so these hold
  at most 7, 8 and 8 widgets; \<open>user_index_widgets_lazy\<close> passes the same counts and returns
  at most 23 widgets.
\<close>

theorem dashboard_caps:
  "length (widgets_for_event_qs render qs nmax lz) = min nmax (length qs) \<and>
   length (widgets_for_event_qs render qs nmax lz) \<le> nmax \<and>
   length (upcoming (organiser_dashboard conf request)) \<le> 7 \<and>
   length (past (organiser_dashboard conf request)) \<le> 8 \<and>
   length (series (organiser_dashboard conf request)) \<le> 8 \<and>
   length (user_index_widgets_lazy request) \<le> 7 + 8 + 8"
  by (simp add: length_widgets_for_event_qs organiser_dashboard_def user_index_widgets_lazy_def)

section \<open>Properties of the context enrichment\<close>

lemma fst_child_session_other:
  "k \<noteq> ''new_session'' \<Longrightarrow> fst (child_session request e dom_flag ctx st) k = ctx k"
  by (simp add: child_session_def Let_def split: option.split)

lemma fst_selected_subevents_other:
  "k \<noteq> ''selected_subevents'' \<Longrightarrow> fst (selected_subevents env request e ctx st) k = ctx k"
  by (simp add: selected_subevents_def Let_def split: sum.split)

lemma fst_complain:
  "fst (complain_testmode_orders env request org e ctx st) ''complain_testmode_orders'' =
     Some (CBool (if testmode e then False
                  else (case cache_get st ''complain_testmode_orders'' of
                          None \<Rightarrow> testmode_orders_exist e | Some c \<Rightarrow> c) \<and>
                       has_event_permission env (user request) org e ''can_view_orders'' request))"
  by (simp add: complain_testmode_orders_def Let_def split: option.split)

lemma organizer_ctx_flag:
  "fst (organizer_ctx env request org e ctx st) ''complain_testmode_orders'' =
     Some (CBool (if testmode e then False
                  else (case cache_get st ''complain_testmode_orders'' of
                          None \<Rightarrow> testmode_orders_exist e | Some c \<Rightarrow> c) \<and>
                       has_event_permission env (user request) org e ''can_view_orders'' request))"
  by (simp add: organizer_ctx_def Let_def split_beta fst_selected_subevents_other
      fst_child_session_other fst_complain del: fun_upd_apply)

lemma default_context_flag_scoped:
  assumes "event_scoped env request org e"
  shows "fst (default_context conf env request st) ''complain_testmode_orders'' =
     Some (CBool (if testmode e then False
                  else (case cache_get st ''complain_testmode_orders'' of
                          None \<Rightarrow> testmode_orders_exist e | Some c \<Rightarrow> c) \<and>
                       has_event_permission env (user request) org e ''can_view_orders'' request))"
  using assms
  by (auto simp add: event_scoped_def default_context_def Let_def organizer_ctx_flag
      simp del: fun_upd_apply)

lemma default_context_flag_unscoped:
  assumes "\<not> is_event_scoped env request"
  shows "fst (default_context conf env request st) ''complain_testmode_orders'' = None"
  using assms
  by (auto simp add: is_event_scoped_def default_context_def Let_def base_ctx_def user_ctx_def
      event_ctx_def split: option.split)

lemma selected_malformed:
  assumes "GET request ''subevent'' = Some s" "s \<noteq> []" "py_int (int_max_str_digits env) (str_strip s) = Inl err"
  shows "selected_subevents env request e ctx st =
           (ctx, st\<lparr>logs := logs st @ [LogError ''Error parsing subevent ID: %s'' err]\<rparr>)"
  using assms by (simp add: selected_subevents_def dict_get_def Let_def)

lemma selected_absent:
  "selected_subevents env (request\<lparr>GET := (GET request)(''subevent'' := None)\<rparr>) e ctx st = (ctx, st)"
  by (simp add: selected_subevents_def dict_get_def)

lemma complain_GET:
  assumes "same_answers env request (request\<lparr>GET := g\<rparr>)"
  shows "complain_testmode_orders env (request\<lparr>GET := g\<rparr>) org e ctx st =
         complain_testmode_orders env request org e ctx st"
proof -
  have "has_event_permission env (user request) org e ''can_view_orders'' (request\<lparr>GET := g\<rparr>) =
        has_event_permission env (user request) org e ''can_view_orders'' request"
    using assms by (simp add: same_answers_def) metis
  then show ?thesis
    by (simp add: complain_testmode_orders_def Let_def split: option.split)
qed

lemma child_session_GET:
  "child_session (request\<lparr>GET := g\<rparr>) e d ctx st = child_session request e d ctx st"
  by (simp add: child_session_def Let_def split: option.split)

lemma organizer_ctx_malformed:
  assumes "GET request ''subevent'' = Some s" "s \<noteq> []" "py_int (int_max_str_digits env) (str_strip s) = Inl err"
    and "same_answers env request (request\<lparr>GET := (GET request)(''subevent'' := None)\<rparr>)"
  shows "organizer_ctx env request org e ctx st =
     (fst (organizer_ctx env (request\<lparr>GET := (GET request)(''subevent'' := None)\<rparr>) org e ctx st),
      (snd (organizer_ctx env (request\<lparr>GET := (GET request)(''subevent'' := None)\<rparr>) org e ctx st))
        \<lparr>logs := logs (snd (organizer_ctx env (request\<lparr>GET := (GET request)(''subevent'' := None)\<rparr>) org e ctx st))
                 @ [LogError ''Error parsing subevent ID: %s'' err]\<rparr>)"
proof -
  have n: "get_event_navigation env (request\<lparr>GET := (GET request)(''subevent'' := None)\<rparr>) =
           get_event_navigation env request"
    using assms(4) by (simp add: same_answers_def)
  show ?thesis
    by (simp add: organizer_ctx_def Let_def split_beta selected_malformed [OF assms(1-3)]
        selected_absent complain_GET [OF assms(4)] child_session_GET n del: fun_upd_apply)
qed


lemma fst_complain_other:
  "k \<noteq> ''complain_testmode_orders'' \<Longrightarrow>
     fst (complain_testmode_orders env request org e ctx st) k = ctx k"
  by (simp add: complain_testmode_orders_def Let_def split: option.split)

lemma logs_complain:
  "logs (snd (complain_testmode_orders env request org e ctx st)) = logs st"
  by (simp add: complain_testmode_orders_def cache_set_def Let_def split: option.split)

lemma logs_child_session:
  "logs (snd (child_session request e dom_flag ctx st)) = logs st"
  by (simp add: child_session_def Let_def split: option.split)

lemma organizer_ctx_absent_key:
  "fst (organizer_ctx env (request\<lparr>GET := (GET request)(''subevent'' := None)\<rparr>) org e ctx st)
     ''selected_subevents'' = ctx ''selected_subevents''"
  by (simp add: organizer_ctx_def Let_def split_beta selected_absent fst_child_session_other
      fst_complain_other del: fun_upd_apply) simp

lemma organizer_ctx_absent_logs:
  "logs (snd (organizer_ctx env (request\<lparr>GET := (GET request)(''subevent'' := None)\<rparr>) org e ctx st))
     = logs st"
  by (simp add: organizer_ctx_def Let_def split_beta selected_absent logs_child_session
      logs_complain del: fun_upd_apply)

lemma default_context_absent_key:
  "fst (default_context conf env (request\<lparr>GET := (GET request)(''subevent'' := None)\<rparr>) st)
     ''selected_subevents'' = None"
  by (simp add: default_context_def Let_def organizer_ctx_absent_key base_ctx_def user_ctx_def
      event_ctx_def split: option.split del: fun_upd_apply) simp

lemma default_context_absent_logs:
  "logs (snd (default_context conf env (request\<lparr>GET := (GET request)(''subevent'' := None)\<rparr>) st))
     = logs st"
  by (simp add: default_context_def Let_def organizer_ctx_absent_logs split: option.split)

lemma user_ctx_GET:
  assumes "same_answers env request (request\<lparr>GET := g\<rparr>)"
  shows "user_ctx conf env (request\<lparr>GET := g\<rparr>) ctx = user_ctx conf env request ctx"
  using assms by (simp add: user_ctx_def same_answers_def)

lemma default_context_malformed:
  assumes "GET request ''subevent'' = Some s" "s \<noteq> []" "py_int (int_max_str_digits env) (str_strip s) = Inl err"
    and "same_answers env request (request\<lparr>GET := (GET request)(''subevent'' := None)\<rparr>)"
  shows "default_context conf env request st =
     (fst (default_context conf env (request\<lparr>GET := (GET request)(''subevent'' := None)\<rparr>) st),
      (snd (default_context conf env (request\<lparr>GET := (GET request)(''subevent'' := None)\<rparr>) st))
        \<lparr>logs := logs st @ (if is_event_scoped env request
                             then [LogError ''Error parsing subevent ID: %s'' err] else [])\<rparr>)"
proof (cases "is_event_scoped env request")
  case True
  then obtain url org e where r: "resolve env (path_info request) = Some url"
    "startswith (path request) (get_script_prefix env @ ''common'')"
    "is_authenticated (user request)" "event request = Some e" "organizer request = Some org"
    by (auto simp add: is_event_scoped_def)
  show ?thesis
    using True r organizer_ctx_absent_logs [of env request org e _ st]
    by (simp add: default_context_def Let_def user_ctx_GET [OF assms(4)]
        organizer_ctx_malformed [OF assms, of org e] del: fun_upd_apply)
next
  case False
  have "logs (snd (default_context conf env
      (request\<lparr>GET := (GET request)(''subevent'' := None)\<rparr>) st)) = logs st"
    by (rule default_context_absent_logs)
  then have e: "(snd (default_context conf env
      (request\<lparr>GET := (GET request)(''subevent'' := None)\<rparr>) st))\<lparr>logs := logs st\<rparr> =
      snd (default_context conf env (request\<lparr>GET := (GET request)(''subevent'' := None)\<rparr>) st)"
    by (cases "snd (default_context conf env
      (request\<lparr>GET := (GET request)(''subevent'' := None)\<rparr>) st)") simp
  have "default_context conf env request st =
      default_context conf env (request\<lparr>GET := (GET request)(''subevent'' := None)\<rparr>) st"
    using False
    by (auto simp add: default_context_def Let_def is_event_scoped_def user_ctx_GET [OF assms(4)]
        split: option.split simp del: fun_upd_apply)
  then show ?thesis
    using False e by simp
qed

lemma event_scoped_request_event: "event_scoped env0 request_event org0 event_jan"
  by (simp add: event_scoped_def env0_def request_event_def user0_def startswith_def)

lemma event_scoped_request_test: "event_scoped env0 request_test org0 event_test"
  by (simp add: event_scoped_def env0_def request_test_def request_event_def user0_def
      startswith_def)

lemma permission_request_event:
  "has_event_permission env0 (user request_event) org0 event_jan ''can_view_orders'' request_event"
  by (simp add: env0_def)

lemma flag_request_event:
  "fst (default_context conf0 env0 request_event state_cached) ''complain_testmode_orders'' =
     Some (CBool True)"
  by (simp add: default_context_flag_scoped [OF event_scoped_request_event]
      permission_request_event)
    (simp add: event_jan_def cache_get_def state_cached_def)

text \<open>
  C3, as the code has it. For a request with an event of an organizer, the flag
  \<open>complain_testmode_orders\<close> of the context is \<open>False\<close> when the event is in test mode,
  whatever the cache holds and whether orders made in test mode exist. Outside test mode it
  is the cached value (or, with nothing cached, the existence of such orders) and the
  permission \<open>can_view_orders\<close>. The flag \<open>live\<close> of the event plays no part.
\<close>

theorem complain_flag_by_testmode:
  "event_scoped env request org e \<longrightarrow>
     fst (default_context conf env request st) ''complain_testmode_orders'' =
       Some (CBool (if testmode e then False
                    else (case cache_get st ''complain_testmode_orders'' of
                            None \<Rightarrow> testmode_orders_exist e | Some c \<Rightarrow> c) \<and>
                         has_event_permission env (user request) org e ''can_view_orders'' request))"
  by (simp add: default_context_flag_scoped)

theorem complain_flag_by_testmode_witness:
  "event_scoped env0 request_test org0 event_test \<and> testmode event_test \<and>
   cache_get state_cached ''complain_testmode_orders'' = Some True \<and>
   fst (default_context conf0 env0 request_test state_cached) ''complain_testmode_orders'' =
     Some (CBool False)"
proof -
  note t = complain_flag_by_testmode [of env0 request_test org0 event_test conf0 state_cached]
  have m: "testmode event_test"
    by (simp add: event_test_def)
  have c: "cache_get state_cached ''complain_testmode_orders'' = Some True"
    by (simp add: cache_get_def state_cached_def)
  show ?thesis
    using t event_scoped_request_test m c by simp
qed

text \<open>
  The claim C3 as written fails: the event of this request is live, and the flag is \<open>True\<close>.
\<close>

theorem live_event_flag_counterexample:
  "live event_jan \<and> event request_event = Some event_jan \<and>
   fst (default_context conf0 env0 request_event state_cached) ''complain_testmode_orders'' =
     Some (CBool True)"
  by (simp add: flag_request_event) (simp add: event_jan_def request_event_def)

text \<open>
  C9. Whenever the context has \<open>complain_testmode_orders\<close> equal to \<open>True\<close>, the request has
  an event and an organizer and the user holds the permission \<open>can_view_orders\<close> for them.
\<close>

theorem complain_flag_needs_permission:
  "fst (default_context conf env request st) ''complain_testmode_orders'' = Some (CBool True) \<longrightarrow>
     (\<exists>org e. organizer request = Some org \<and> event request = Some e \<and>
        has_event_permission env (user request) org e ''can_view_orders'' request)"
proof
  assume flag: "fst (default_context conf env request st) ''complain_testmode_orders'' =
    Some (CBool True)"
  have "is_event_scoped env request"
  proof (rule ccontr)
    assume "\<not> is_event_scoped env request"
    then show False
      using flag by (simp add: default_context_flag_unscoped)
  qed
  then obtain org e where sc: "event_scoped env request org e"
    by (auto simp add: is_event_scoped_def event_scoped_def)
  then have "has_event_permission env (user request) org e ''can_view_orders'' request"
    using flag by (auto simp add: default_context_flag_scoped split: if_splits)
  then show "\<exists>org e. organizer request = Some org \<and> event request = Some e \<and>
        has_event_permission env (user request) org e ''can_view_orders'' request"
    using sc by (auto simp add: event_scoped_def)
qed

theorem complain_flag_needs_permission_witness:
  "fst (default_context conf0 env0 request_event state_cached) ''complain_testmode_orders'' =
     Some (CBool True) \<and>
   (\<exists>org e. organizer request_event = Some org \<and> event request_event = Some e \<and>
      has_event_permission env0 (user request_event) org e ''can_view_orders'' request_event)"
  using complain_flag_needs_permission [of conf0 env0 request_event state_cached]
    flag_request_event
  by simp

text \<open>
  C8. For every request whose path fails route resolution, and for every request whose path
  does not start with the script prefix followed by \<open>common\<close>, \<open>_default_context\<close> returns
  the empty context and leaves the cache, the session and the log as they were: nothing else
  is computed.
\<close>

theorem default_context_short_circuit:
  "resolve env (path_info request) = None \<or>
   \<not> startswith (path request) (get_script_prefix env @ ''common'') \<longrightarrow>
     default_context conf env request st = (Map.empty, st)"
  by (auto simp add: default_context_def split: option.split)

theorem default_context_short_circuit_witness:
  "resolve env0 (path_info request_404) = None \<and>
   default_context conf0 env0 request_404 state_cached = (Map.empty, state_cached) \<and>
   resolve env0 (path_info request_control) \<noteq> None \<and>
   \<not> startswith (path request_control) (get_script_prefix env0 @ ''common'') \<and>
   default_context conf0 env0 request_control state_cached = (Map.empty, state_cached)"
proof -
  note t1 = default_context_short_circuit [of env0 request_404 conf0 state_cached]
  note t2 = default_context_short_circuit [of env0 request_control conf0 state_cached]
  have r1: "resolve env0 (path_info request_404) = None"
    by (simp add: env0_def request_404_def startswith_def)
  have r2: "resolve env0 (path_info request_control) \<noteq> None"
    by (simp add: env0_def request_control_def startswith_def)
  have p2: "\<not> startswith (path request_control) (get_script_prefix env0 @ ''common'')"
    by (simp add: env0_def request_control_def startswith_def)
  show ?thesis
    using t1 t2 r1 r2 p2 by simp
qed


lemma py_int_abc: "py_int (int_max_str_digits env0) (str_strip ''abc'') = Inl (ValueError ''abc'')"
  by (simp add: py_int_def str_strip_def is_space_def literal_def is_digit_def Let_def)

lemma GET_request_event: "GET request_event ''subevent'' = Some ''abc''"
  by (simp add: request_event_def)

lemma same_answers_env0: "same_answers env0 r r'"
  by (simp add: same_answers_def env0_def)

lemma is_event_scoped_request_event: "is_event_scoped env0 request_event"
  by (simp add: is_event_scoped_def env0_def request_event_def user0_def startswith_def)

lemma organizer_ctx_malformed_key:
  assumes "GET request ''subevent'' = Some s" "s \<noteq> []"
    "py_int (int_max_str_digits env) (str_strip s) = Inl err"
  shows "fst (organizer_ctx env request org e ctx st) ''selected_subevents'' =
         ctx ''selected_subevents''"
  by (simp add: organizer_ctx_def Let_def split_beta selected_malformed [OF assms]
      fst_child_session_other fst_complain_other del: fun_upd_apply) simp

lemma organizer_ctx_malformed_logs:
  assumes "GET request ''subevent'' = Some s" "s \<noteq> []"
    "py_int (int_max_str_digits env) (str_strip s) = Inl err"
  shows "logs (snd (organizer_ctx env request org e ctx st)) =
         logs st @ [LogError ''Error parsing subevent ID: %s'' err]"
  by (simp add: organizer_ctx_def Let_def split_beta selected_malformed [OF assms]
      logs_child_session logs_complain del: fun_upd_apply)

lemma default_context_malformed_key:
  assumes "GET request ''subevent'' = Some s" "s \<noteq> []"
    "py_int (int_max_str_digits env) (str_strip s) = Inl err"
  shows "fst (default_context conf env request st) ''selected_subevents'' = None"
  by (simp add: default_context_def Let_def organizer_ctx_malformed_key [OF assms]
      base_ctx_def user_ctx_def event_ctx_def split: option.split del: fun_upd_apply) simp

lemma default_context_malformed_logs:
  assumes "GET request ''subevent'' = Some s" "s \<noteq> []"
    "py_int (int_max_str_digits env) (str_strip s) = Inl err"
  shows "logs (snd (default_context conf env request st)) =
         logs st @ (if is_event_scoped env request
                    then [LogError ''Error parsing subevent ID: %s'' err] else [])"
  by (auto simp add: default_context_def Let_def is_event_scoped_def
      organizer_ctx_malformed_logs [OF assms] split: option.split)

text \<open>
  C7, as the code has it. For every request whose parameter \<open>subevent\<close> is a non-empty string
  that \<open>int\<close> rejects, \<open>_default_context\<close> returns (the \<open>ValueError\<close> is caught) and the
  context has no key \<open>selected_subevents\<close>. The failure is logged, once, when the parameter
  is parsed: for a request with an event of an organizer, under the prefix, of an
  authenticated user. For any other request the parameter is not read and nothing is logged.
  The other keys are unaffected: whenever the collaborators that receive the request
  (navigation, permission) answer alike for the request with and without the parameter,
  context, cache and session are those of the request without the parameter.
\<close>

theorem malformed_subevent_parameter:
  "GET request ''subevent'' = Some s \<and> s \<noteq> [] \<and>
   py_int (int_max_str_digits env) (str_strip s) = Inl err \<longrightarrow>
     fst (default_context conf env request st) ''selected_subevents'' = None \<and>
     logs (snd (default_context conf env request st)) =
       logs st @ (if is_event_scoped env request
                  then [LogError ''Error parsing subevent ID: %s'' err] else []) \<and>
     (same_answers env request (request\<lparr>GET := (GET request)(''subevent'' := None)\<rparr>) \<longrightarrow>
        fst (default_context conf env request st) =
          fst (default_context conf env
                 (request\<lparr>GET := (GET request)(''subevent'' := None)\<rparr>) st) \<and>
        snd (default_context conf env request st) =
          (snd (default_context conf env
                  (request\<lparr>GET := (GET request)(''subevent'' := None)\<rparr>) st))
            \<lparr>logs := logs st @ (if is_event_scoped env request
                                 then [LogError ''Error parsing subevent ID: %s'' err]
                                 else [])\<rparr>)"
proof (intro impI conjI)
  assume h: "GET request ''subevent'' = Some s \<and> s \<noteq> [] \<and>
    py_int (int_max_str_digits env) (str_strip s) = Inl err"
  then have h1: "GET request ''subevent'' = Some s" and h2: "s \<noteq> []"
    and h3: "py_int (int_max_str_digits env) (str_strip s) = Inl err"
    by blast+
  show "fst (default_context conf env request st) ''selected_subevents'' = None"
    by (rule default_context_malformed_key [OF h1 h2 h3])
  show "logs (snd (default_context conf env request st)) =
       logs st @ (if is_event_scoped env request
                  then [LogError ''Error parsing subevent ID: %s'' err] else [])"
    by (rule default_context_malformed_logs [OF h1 h2 h3])
  assume sa: "same_answers env request (request\<lparr>GET := (GET request)(''subevent'' := None)\<rparr>)"
  have eq: "default_context conf env request st =
     (fst (default_context conf env (request\<lparr>GET := (GET request)(''subevent'' := None)\<rparr>) st),
      (snd (default_context conf env (request\<lparr>GET := (GET request)(''subevent'' := None)\<rparr>) st))
        \<lparr>logs := logs st @ (if is_event_scoped env request
                             then [LogError ''Error parsing subevent ID: %s'' err] else [])\<rparr>)"
    by (rule default_context_malformed [OF h1 h2 h3 sa])
  show "fst (default_context conf env request st) =
      fst (default_context conf env (request\<lparr>GET := (GET request)(''subevent'' := None)\<rparr>) st)"
    using eq by (metis fst_conv)
  show "snd (default_context conf env request st) =
      (snd (default_context conf env (request\<lparr>GET := (GET request)(''subevent'' := None)\<rparr>) st))
        \<lparr>logs := logs st @ (if is_event_scoped env request
                             then [LogError ''Error parsing subevent ID: %s'' err] else [])\<rparr>"
    using eq by (metis snd_conv)
qed

theorem malformed_subevent_parameter_witness:
  "GET request_event ''subevent'' = Some ''abc'' \<and>
   py_int (int_max_str_digits env0) (str_strip ''abc'') = Inl (ValueError ''abc'') \<and>
   is_event_scoped env0 request_event \<and>
   same_answers env0 request_event
     (request_event\<lparr>GET := (GET request_event)(''subevent'' := None)\<rparr>) \<and>
   fst (default_context conf0 env0 request_event state_cached) ''selected_subevents'' = None \<and>
   logs (snd (default_context conf0 env0 request_event state_cached)) =
     [LogError ''Error parsing subevent ID: %s'' (ValueError ''abc'')] \<and>
   fst (default_context conf0 env0 request_event state_cached) =
     fst (default_context conf0 env0
            (request_event\<lparr>GET := (GET request_event)(''subevent'' := None)\<rparr>) state_cached)"
proof -
  note t = malformed_subevent_parameter [where request = request_event and s = "''abc''"
      and env = env0 and err = "ValueError ''abc''" and conf = conf0 and st = state_cached]
  have l: "logs state_cached = []"
    by (simp add: state_cached_def)
  have prem: "GET request_event ''subevent'' = Some ''abc'' \<and> ''abc'' \<noteq> [] \<and>
      py_int (int_max_str_digits env0) (str_strip ''abc'') = Inl (ValueError ''abc'')"
    using GET_request_event py_int_abc by simp
  note c = t [rule_format, OF prem]
  from c have k: "fst (default_context conf0 env0 request_event state_cached)
      ''selected_subevents'' = None"
    by blast
  from c have "logs (snd (default_context conf0 env0 request_event state_cached)) =
      logs state_cached @ (if is_event_scoped env0 request_event
        then [LogError ''Error parsing subevent ID: %s'' (ValueError ''abc'')] else [])"
    by blast
  then have g: "logs (snd (default_context conf0 env0 request_event state_cached)) =
      [LogError ''Error parsing subevent ID: %s'' (ValueError ''abc'')]"
    using l is_event_scoped_request_event by simp
  from c same_answers_env0 have f: "fst (default_context conf0 env0 request_event state_cached) =
     fst (default_context conf0 env0
            (request_event\<lparr>GET := (GET request_event)(''subevent'' := None)\<rparr>) state_cached)"
    by blast
  show ?thesis
    using GET_request_event py_int_abc is_event_scoped_request_event same_answers_env0 k g f
    by blast
qed

text \<open>
  The claim C7 as written fails where the parameter is never read: this request has the
  parameter \<open>abc\<close> and no event, and nothing is logged.
\<close>

theorem malformed_subevent_not_logged_counterexample:
  "GET request_global ''subevent'' = Some ''abc'' \<and>
   py_int (int_max_str_digits env0) (str_strip ''abc'') = Inl (ValueError ''abc'') \<and>
   is_authenticated (user request_global) \<and>
   logs (snd (default_context conf0 env0 request_global state_cached)) = []"
  by (simp add: py_int_abc)
    (simp add: default_context_def request_global_def env0_def user0_def startswith_def
      state_cached_def Let_def)

end
